theory Spec2Isabelle
  imports Main
begin

section \<open>The video-chat client (client.js) as a state machine\<close>

text \<open>
  The script is event driven: every socket callback, click handler, transport callback and
  promise continuation runs to completion on one shared set of variables. Each of them is
  a function from state to state below. The browser objects the script only calls into
  (the RTCPeerConnection, the socket, the media tracks, the console) are kept as the
  ordered list of calls the script made on them.
\<close>

subsection \<open>Data\<close>

text \<open>Session descriptions and ICE candidate descriptors are opaque to the script.\<close>

type_synonym sdp = string
type_synonym candidate = string

datatype track_kind = Video | Audio

record track =
  track_id :: nat
  kind :: track_kind
  enabled :: bool

record media_stream =
  stream_id :: nat
  tracks :: "track list"

text \<open>The \<open>error\<close> object a rejected promise carries (\<open>error.name\<close>, \<open>error.message\<close>).\<close>

record dom_exception =
  name :: string
  message :: string

text \<open>
  A method call on an RTCPeerConnection object. Objects are numbered in the order the
  script constructs them: the one built at load time is 0, each \<open>leaveRoom\<close> builds the next.
  The constant option objects passed to \<open>createOffer\<close> and \<open>createAnswer\<close> are left out;
  \<open>AddTrack t m\<close> is \<open>addTrack\<close> of the track with id \<open>t\<close> and the stream with id \<open>m\<close>.
\<close>

datatype pc_call =
    CreateOffer
  | CreateAnswer
  | SetLocalDescription sdp
  | SetRemoteDescription sdp
  | AddIceCandidate candidate
  | AddTrack nat nat
  | Close

text \<open>A \<open>socket.emit\<close>: the event name with its payload (\<open>Join room name\<close>).\<close>

datatype emitted =
    Join string string
  | Offer sdp
  | Answer sdp
  | Candidate candidate

text \<open>\<open>console.log\<close> and \<open>console.error\<close>: the first argument only.\<close>

datatype console_entry = Log string | Error string

text \<open>
  A promise the script has obtained and that has not settled yet, named by the call that
  returned it; the number is the RTCPeerConnection object the call was made on. The
  promises of \<open>setLocalDescription\<close> and of the \<open>setRemoteDescription\<close> in the
  \<open>getAnswer\<close> callback have no continuation attached.
\<close>

datatype awaiting =
    AwaitGetUserMedia
  | AwaitCreateOffer nat
  | AwaitSetRemoteDescriptionOfOffer nat
  | AwaitCreateAnswer nat
  | AwaitAddIceCandidate nat
  | AwaitSetLocalDescription nat
  | AwaitSetRemoteDescriptionOfAnswer nat

datatype outcome =
    FulfilledStream media_stream
  | FulfilledSdp sdp
  | Fulfilled
  | Rejected dom_exception

record state =
  \<comment> \<open>the script's variables\<close>
  localStream :: "media_stream option"
  isVideoEnabled :: bool
  isAudioEnabled :: bool
  peerConnection :: nat
  \<comment> \<open>the DOM elements the script reads and writes\<close>
  localVideo_srcObject :: "nat option"
  remoteVideo_srcObject :: "nat option"
  localPlaceholder_hidden :: bool
  remotePlaceholder_hidden :: bool
  joinBtn_disabled :: bool
  leaveBtn_disabled :: bool
  toggleVideoBtn_disabled :: bool
  toggleAudioBtn_disabled :: bool
  toggleVideoBtn_muted :: bool
  toggleAudioBtn_muted :: bool
  toggleVideoBtn_iconOn_display :: string
  toggleVideoBtn_iconOff_display :: string
  toggleAudioBtn_iconOn_display :: string
  toggleAudioBtn_iconOff_display :: string
  connectionStatus_className :: string
  statusText_textContent :: string
  errorMsg_textContent :: string
  \<comment> \<open>the browser side\<close>
  transport_calls :: "(nat \<times> pc_call) list"
  socket_emits :: "emitted list"
  console :: "console_entry list"
  stopped_tracks :: "nat list"
  pending :: "awaiting list"
  handlers_installed :: "nat set"
  iceConnectionState :: "nat \<Rightarrow> string"
  math_random :: "nat \<Rightarrow> string"
  math_random_calls :: nat

text \<open>
  \<open>handlers_installed\<close> holds the RTCPeerConnection objects whose \<open>onicecandidate\<close>,
  \<open>oniceconnectionstatechange\<close> and \<open>ontrack\<close> properties \<open>init\<close> has assigned.
  \<open>iceConnectionState\<close> is the property of that name of each object, written by the
  browser. \<open>math_random n\<close> is the string that
  \<open>Math.random().toString(36).substr(2, 5)\<close> evaluates to at its \<open>n\<close>-th
  evaluation (counted from 0), and \<open>math_random_calls\<close> counts the evaluations made so
  far, so that every join draws its own name.
\<close>

subsection \<open>Calls into the browser\<close>

definition console_log :: "string \<Rightarrow> state \<Rightarrow> state" where
  "console_log m s = s\<lparr>console := console s @ [Log m]\<rparr>"

definition console_error :: "string \<Rightarrow> state \<Rightarrow> state" where
  "console_error m s = s\<lparr>console := console s @ [Error m]\<rparr>"

definition socket_emit :: "emitted \<Rightarrow> state \<Rightarrow> state" where
  "socket_emit m s = s\<lparr>socket_emits := socket_emits s @ [m]\<rparr>"

text \<open>A method call on the object the variable \<open>peerConnection\<close> holds at that moment.\<close>

definition pc_invoke :: "pc_call \<Rightarrow> state \<Rightarrow> state" where
  "pc_invoke c s = s\<lparr>transport_calls := transport_calls s @ [(peerConnection s, c)]\<rparr>"

definition await :: "awaiting \<Rightarrow> state \<Rightarrow> state" where
  "await a s = s\<lparr>pending := pending s @ [a]\<rparr>"

subsection \<open>UI helper functions\<close>

definition updateConnectionStatus :: "string \<Rightarrow> string \<Rightarrow> state \<Rightarrow> state" where
  "updateConnectionStatus st txt s =
     s\<lparr>connectionStatus_className := ''connection-status '' @ st,
       statusText_textContent := txt\<rparr>"

definition showError :: "string \<Rightarrow> state \<Rightarrow> state" where
  "showError m s = s\<lparr>errorMsg_textContent := m\<rparr>"

definition clearError :: "state \<Rightarrow> state" where
  "clearError s = s\<lparr>errorMsg_textContent := ''''\<rparr>"

subsection \<open>WebRTC functions\<close>

text \<open>\<open>createOffer\<close> up to the point where it has the promise, then its two continuations.\<close>

definition createOffer :: "state \<Rightarrow> state" where
  "createOffer s =
     (let s = console_log ''Creating offer...'' s;
          s = pc_invoke CreateOffer s
      in await (AwaitCreateOffer (peerConnection s)) s)"

definition createOffer_then :: "sdp \<Rightarrow> state \<Rightarrow> state" where
  "createOffer_then d s =
     (let s = pc_invoke (SetLocalDescription d) s;
          s = await (AwaitSetLocalDescription (peerConnection s)) s
      in socket_emit (Offer d) s)"

definition createOffer_catch :: "dom_exception \<Rightarrow> state \<Rightarrow> state" where
  "createOffer_catch e s =
     (let s = console_error ''Error creating offer:'' s
      in showError ''Failed to create connection offer'' s)"

definition createAnswer :: "sdp \<Rightarrow> state \<Rightarrow> state" where
  "createAnswer d s =
     (let s = pc_invoke (SetRemoteDescription d) s
      in await (AwaitSetRemoteDescriptionOfOffer (peerConnection s)) s)"

definition createAnswer_then1 :: "state \<Rightarrow> state" where
  "createAnswer_then1 s =
     (let s = console_log ''Remote description set, creating answer...'' s;
          s = pc_invoke CreateAnswer s
      in await (AwaitCreateAnswer (peerConnection s)) s)"

definition createAnswer_then2 :: "sdp \<Rightarrow> state \<Rightarrow> state" where
  "createAnswer_then2 answerSdp s =
     (let s = console_log ''Answer created'' s;
          s = pc_invoke (SetLocalDescription answerSdp) s;
          s = await (AwaitSetLocalDescription (peerConnection s)) s
      in socket_emit (Answer answerSdp) s)"

definition createAnswer_catch :: "dom_exception \<Rightarrow> state \<Rightarrow> state" where
  "createAnswer_catch e s =
     (let s = console_error ''Error creating answer:'' s
      in showError ''Failed to establish connection'' s)"

subsection \<open>Socket events\<close>

definition on_connect :: "state \<Rightarrow> state" where
  "on_connect s =
     (let s = console_log ''Connected to signaling server!'' s
      in updateConnectionStatus ''connected'' ''Connected'' s)"

definition on_disconnect :: "state \<Rightarrow> state" where
  "on_disconnect s =
     (let s = console_log ''Disconnected from signaling server'' s
      in updateConnectionStatus ''disconnected'' ''Disconnected'' s)"

definition on_connect_error :: "state \<Rightarrow> state" where
  "on_connect_error s =
     (let s = console_error ''Connection error:'' s;
          s = updateConnectionStatus ''disconnected'' ''Connection Failed'' s
      in showError ''Cannot connect to server. Make sure the signaling server is running.'' s)"

definition on_room_users :: "string list \<Rightarrow> state \<Rightarrow> state" where
  "on_room_users data s =
     (let s = console_log ''Users in room:'' s
      in if length data > 0 then createOffer s else s)"

definition on_getOffer :: "sdp \<Rightarrow> state \<Rightarrow> state" where
  "on_getOffer d s =
     (let s = console_log ''Received offer'' s
      in createAnswer d s)"

definition on_getAnswer :: "sdp \<Rightarrow> state \<Rightarrow> state" where
  "on_getAnswer d s =
     (let s = console_log ''Received answer'' s;
          s = pc_invoke (SetRemoteDescription d) s
      in await (AwaitSetRemoteDescriptionOfAnswer (peerConnection s)) s)"

text \<open>
  The \<open>RTCIceCandidate\<close> constructor is taken to accept the descriptor it is given.
\<close>

definition on_getCandidate :: "candidate \<Rightarrow> state \<Rightarrow> state" where
  "on_getCandidate c s =
     (let s = pc_invoke (AddIceCandidate c) s
      in await (AwaitAddIceCandidate (peerConnection s)) s)"

definition on_getCandidate_then :: "state \<Rightarrow> state" where
  "on_getCandidate_then s = console_log ''ICE candidate added'' s"

definition on_getCandidate_catch :: "dom_exception \<Rightarrow> state \<Rightarrow> state" where
  "on_getCandidate_catch e s = console_error ''Error adding ICE candidate:'' s"

definition on_user_exit :: "string \<Rightarrow> state \<Rightarrow> state" where
  "on_user_exit data_id s =
     (let s = console_log ''User left:'' s
      in if remoteVideo_srcObject s \<noteq> None
         then s\<lparr>remoteVideo_srcObject := None, remotePlaceholder_hidden := False\<rparr>
         else s)"

subsection \<open>Main init function\<close>

text \<open>
  \<open>init\<close> is an async function: it runs to the \<open>await\<close> of \<open>getUserMedia\<close>, and
  resumes in the \<open>try\<close> block when the promise fulfils (\<open>init_resume\<close>) or in the
  \<open>catch\<close> block when it rejects (\<open>init_catch\<close>).
\<close>

definition init :: "state \<Rightarrow> state" where
  "init s =
     (let s = console_log ''Initializing video chat...'' s;
          s = clearError s
      in await AwaitGetUserMedia s)"

definition init_resume :: "media_stream \<Rightarrow> state \<Rightarrow> state" where
  "init_resume stream s =
     (let s = s\<lparr>localStream := Some stream\<rparr>;
          s = s\<lparr>localVideo_srcObject := Some (stream_id stream),
                localPlaceholder_hidden := True\<rparr>;
          s = s\<lparr>toggleVideoBtn_disabled := False, toggleAudioBtn_disabled := False,
                leaveBtn_disabled := False, joinBtn_disabled := True\<rparr>;
          s = foldl (\<lambda>s t. pc_invoke (AddTrack (track_id t) (stream_id stream)) s) s
                (tracks stream);
          s = s\<lparr>handlers_installed := insert (peerConnection s) (handlers_installed s)\<rparr>;
          r = math_random s (math_random_calls s);
          s = s\<lparr>math_random_calls := Suc (math_random_calls s)\<rparr>;
          s = socket_emit (Join ''1234'' (''user_'' @ r)) s
      in updateConnectionStatus ''connected'' ''In Room'' s)"

definition init_catch :: "dom_exception \<Rightarrow> state \<Rightarrow> state" where
  "init_catch error s =
     (let s = console_error ''Error initializing:'' s
      in if name error = ''NotAllowedError''
         then showError ''Camera/microphone access denied. Please allow permissions and try again.'' s
         else if name error = ''NotFoundError''
         then showError ''No camera or microphone found. Please connect a device.'' s
         else showError (''Error: '' @ message error) s)"

text \<open>The three handlers \<open>init\<close> assigns to the RTCPeerConnection.\<close>

definition onicecandidate :: "candidate option \<Rightarrow> state \<Rightarrow> state" where
  "onicecandidate e_candidate s =
     (case e_candidate of
        None \<Rightarrow> s
      | Some c \<Rightarrow>
          (let s = console_log ''Sending ICE candidate'' s
           in socket_emit (Candidate c) s))"

text \<open>
  The handler reads \<open>peerConnection.iceConnectionState\<close> through the variable, at the
  time it runs.
\<close>

definition oniceconnectionstatechange :: "state \<Rightarrow> state" where
  "oniceconnectionstatechange s =
     (let s = console_log ''ICE connection state:'' s;
          st = iceConnectionState s (peerConnection s)
      in if st = ''connected''
         then updateConnectionStatus ''connected'' ''Peer Connected'' s
         else if st = ''disconnected''
         then updateConnectionStatus ''disconnected'' ''Peer Disconnected'' s
         else if st = ''failed''
         then (let s = updateConnectionStatus ''disconnected'' ''Connection Failed'' s
               in showError ''Peer connection failed. Try rejoining.'' s)
         else s)"

text \<open>\<open>ev.streams[0]\<close> of an empty list is \<open>undefined\<close>, which \<open>srcObject\<close> stores as null.\<close>

definition ontrack :: "nat list \<Rightarrow> state \<Rightarrow> state" where
  "ontrack ev_streams s =
     (let s = console_log ''Received remote track'' s
      in s\<lparr>remoteVideo_srcObject := (case ev_streams of [] \<Rightarrow> None | m # _ \<Rightarrow> Some m),
            remotePlaceholder_hidden := True\<rparr>)"

subsection \<open>Leave function\<close>

definition leaveRoom :: "state \<Rightarrow> state" where
  "leaveRoom s =
     (let s = (case localStream s of
                 None \<Rightarrow> s
               | Some ls \<Rightarrow>
                   s\<lparr>stopped_tracks := stopped_tracks s @ map track_id (tracks ls),
                     localStream := None\<rparr>);
          s = s\<lparr>localVideo_srcObject := None, remoteVideo_srcObject := None,
                localPlaceholder_hidden := False, remotePlaceholder_hidden := False\<rparr>;
          s = pc_invoke Close s;
          s = s\<lparr>peerConnection := Suc (peerConnection s)\<rparr>;
          s = s\<lparr>joinBtn_disabled := False, leaveBtn_disabled := True,
                toggleVideoBtn_disabled := True, toggleAudioBtn_disabled := True\<rparr>;
          s = s\<lparr>isVideoEnabled := True, isAudioEnabled := True,
                toggleVideoBtn_muted := False, toggleAudioBtn_muted := False\<rparr>;
          s = updateConnectionStatus ''connected'' ''Connected'' s;
          s = clearError s
      in console_log ''Left room'' s)"

subsection \<open>Toggle functions\<close>

text \<open>
  \<open>getVideoTracks()[0]\<close> is the first track of the stream of kind video (and likewise
  for audio); the assignment to its \<open>enabled\<close> property changes that track only.
\<close>

fun set_enabled_of_first :: "track_kind \<Rightarrow> bool \<Rightarrow> track list \<Rightarrow> track list" where
  "set_enabled_of_first k b [] = []"
| "set_enabled_of_first k b (t # ts) =
     (if kind t = k then t\<lparr>enabled := b\<rparr> # ts else t # set_enabled_of_first k b ts)"

definition toggleVideo :: "state \<Rightarrow> state" where
  "toggleVideo s =
     (case localStream s of
        None \<Rightarrow> s
      | Some ls \<Rightarrow>
          if list_ex (\<lambda>t. kind t = Video) (tracks ls)
          then (let s = s\<lparr>isVideoEnabled := \<not> isVideoEnabled s\<rparr>;
                    s = s\<lparr>localStream :=
                            Some (ls\<lparr>tracks := set_enabled_of_first Video (isVideoEnabled s) (tracks ls)\<rparr>)\<rparr>;
                    s = s\<lparr>toggleVideoBtn_muted := \<not> isVideoEnabled s\<rparr>
                in s\<lparr>toggleVideoBtn_iconOn_display := (if isVideoEnabled s then ''block'' else ''none''),
                      toggleVideoBtn_iconOff_display := (if isVideoEnabled s then ''none'' else ''block'')\<rparr>)
          else s)"

definition toggleAudio :: "state \<Rightarrow> state" where
  "toggleAudio s =
     (case localStream s of
        None \<Rightarrow> s
      | Some ls \<Rightarrow>
          if list_ex (\<lambda>t. kind t = Audio) (tracks ls)
          then (let s = s\<lparr>isAudioEnabled := \<not> isAudioEnabled s\<rparr>;
                    s = s\<lparr>localStream :=
                            Some (ls\<lparr>tracks := set_enabled_of_first Audio (isAudioEnabled s) (tracks ls)\<rparr>)\<rparr>;
                    s = s\<lparr>toggleAudioBtn_muted := \<not> isAudioEnabled s\<rparr>
                in s\<lparr>toggleAudioBtn_iconOn_display := (if isAudioEnabled s then ''block'' else ''none''),
                      toggleAudioBtn_iconOff_display := (if isAudioEnabled s then ''none'' else ''block'')\<rparr>)
          else s)"

subsection \<open>Events\<close>

text \<open>
  What can happen to the page: a message on the socket, a click, a callback of an
  RTCPeerConnection object (named by its number), or a pending promise settling
  (named by its position in \<open>pending\<close>).
\<close>

datatype event =
    Connect
  | Disconnect
  | ConnectError
  | RoomUsers "string list"
  | GetOffer sdp
  | GetAnswer sdp
  | GetCandidate candidate
  | UserExit string
  | ClickJoin
  | ClickLeave
  | ClickToggleVideo
  | ClickToggleAudio
  | IceCandidate nat "candidate option"
  | IceConnectionStateChange nat string
  | TrackEvent nat "nat list"
  | Settle nat outcome

text \<open>
  The code that runs when a promise settles; \<open>None\<close> where the call cannot produce
  that outcome. The \<open>catch\<close> at the end of a chain takes the rejection of every
  promise of the chain.
\<close>

fun continuation :: "awaiting \<Rightarrow> outcome \<Rightarrow> (state \<Rightarrow> state) option" where
  "continuation AwaitGetUserMedia (FulfilledStream m) = Some (init_resume m)"
| "continuation AwaitGetUserMedia (Rejected e) = Some (init_catch e)"
| "continuation (AwaitCreateOffer p) (FulfilledSdp d) = Some (createOffer_then d)"
| "continuation (AwaitCreateOffer p) (Rejected e) = Some (createOffer_catch e)"
| "continuation (AwaitSetRemoteDescriptionOfOffer p) Fulfilled = Some createAnswer_then1"
| "continuation (AwaitSetRemoteDescriptionOfOffer p) (Rejected e) = Some (createAnswer_catch e)"
| "continuation (AwaitCreateAnswer p) (FulfilledSdp d) = Some (createAnswer_then2 d)"
| "continuation (AwaitCreateAnswer p) (Rejected e) = Some (createAnswer_catch e)"
| "continuation (AwaitAddIceCandidate p) Fulfilled = Some on_getCandidate_then"
| "continuation (AwaitAddIceCandidate p) (Rejected e) = Some (on_getCandidate_catch e)"
| "continuation (AwaitSetLocalDescription p) Fulfilled = Some (\<lambda>s. s)"
| "continuation (AwaitSetLocalDescription p) (Rejected e) = Some (\<lambda>s. s)"
| "continuation (AwaitSetRemoteDescriptionOfAnswer p) Fulfilled = Some (\<lambda>s. s)"
| "continuation (AwaitSetRemoteDescriptionOfAnswer p) (Rejected e) = Some (\<lambda>s. s)"
| "continuation _ _ = None"

definition settle :: "nat \<Rightarrow> outcome \<Rightarrow> state \<Rightarrow> state" where
  "settle i out s =
     (if i < length (pending s)
      then (case continuation (pending s ! i) out of
              None \<Rightarrow> s
            | Some k \<Rightarrow> k (s\<lparr>pending := take i (pending s) @ drop (Suc i) (pending s)\<rparr>))
      else s)"

text \<open>
  A click reaches its listener only while the button is not disabled; a callback of an
  RTCPeerConnection object runs only if \<open>init\<close> has assigned it on that object.
\<close>

fun step :: "event \<Rightarrow> state \<Rightarrow> state" where
  "step Connect s = on_connect s"
| "step Disconnect s = on_disconnect s"
| "step ConnectError s = on_connect_error s"
| "step (RoomUsers data) s = on_room_users data s"
| "step (GetOffer d) s = on_getOffer d s"
| "step (GetAnswer d) s = on_getAnswer d s"
| "step (GetCandidate c) s = on_getCandidate c s"
| "step (UserExit i) s = on_user_exit i s"
| "step ClickJoin s = (if joinBtn_disabled s then s else init s)"
| "step ClickLeave s = (if leaveBtn_disabled s then s else leaveRoom s)"
| "step ClickToggleVideo s = (if toggleVideoBtn_disabled s then s else toggleVideo s)"
| "step ClickToggleAudio s = (if toggleAudioBtn_disabled s then s else toggleAudio s)"
| "step (IceCandidate p c) s = (if p \<in> handlers_installed s then onicecandidate c s else s)"
| "step (IceConnectionStateChange p st) s =
     (let s = s\<lparr>iceConnectionState := (iceConnectionState s)(p := st)\<rparr>
      in if p \<in> handlers_installed s then oniceconnectionstatechange s else s)"
| "step (TrackEvent p ms) s = (if p \<in> handlers_installed s then ontrack ms s else s)"
| "step (Settle i out) s = settle i out s"

fun run :: "event list \<Rightarrow> state \<Rightarrow> state" where
  "run [] s = s"
| "run (e # es) s = run es (step e s)"

text \<open>
  The state once the script has been loaded: its variables as their declarations
  initialise them, nothing called yet. The page's markup is not part of the script; the
  elements are taken as the script's own \<open>leaveRoom\<close> resets them (Join enabled, the
  other buttons disabled, placeholders shown), with no status or error text yet.
\<close>

definition page_load :: state where
  "page_load =
     \<lparr>localStream = None, isVideoEnabled = True, isAudioEnabled = True, peerConnection = 0,
      localVideo_srcObject = None, remoteVideo_srcObject = None,
      localPlaceholder_hidden = False, remotePlaceholder_hidden = False,
      joinBtn_disabled = False, leaveBtn_disabled = True,
      toggleVideoBtn_disabled = True, toggleAudioBtn_disabled = True,
      toggleVideoBtn_muted = False, toggleAudioBtn_muted = False,
      toggleVideoBtn_iconOn_display = '''', toggleVideoBtn_iconOff_display = '''',
      toggleAudioBtn_iconOn_display = '''', toggleAudioBtn_iconOff_display = '''',
      connectionStatus_className = ''connection-status'', statusText_textContent = '''',
      errorMsg_textContent = '''',
      transport_calls = [], socket_emits = [], console = [], stopped_tracks = [],
      pending = [], handlers_installed = {}, iceConnectionState = (\<lambda>p. ''new''),
      math_random = (\<lambda>n. if n = 0 then ''k3x9q'' else if n = 1 then ''p7m2d'' else ''w4z8c''),
      math_random_calls = 0\<rparr>"

text \<open>A camera-and-microphone stream, as \<open>getUserMedia\<close> fulfils with.\<close>

definition camera_stream :: media_stream where
  "camera_stream =
     \<lparr>stream_id = 1,
      tracks = [\<lparr>track_id = 1, kind = Audio, enabled = True\<rparr>,
                \<lparr>track_id = 2, kind = Video, enabled = True\<rparr>]\<rparr>"

subsection \<open>The specification's rule for remote candidates\<close>

text \<open>
  The specification's rule for remote candidates, read on the list of transport calls:
  no \<open>addIceCandidate\<close> on an object before a \<open>setRemoteDescription\<close> on that object.
  \<open>ready\<close> collects the objects that have been given a remote description so far.
\<close>

fun spec_no_premature_candidate :: "nat list \<Rightarrow> (nat \<times> pc_call) list \<Rightarrow> bool" where
  "spec_no_premature_candidate ready [] = True"
| "spec_no_premature_candidate ready ((p, SetRemoteDescription d) # cs) =
     spec_no_premature_candidate (p # ready) cs"
| "spec_no_premature_candidate ready ((p, AddIceCandidate c) # cs) =
     (p \<in> set ready \<and> spec_no_premature_candidate ready cs)"
| "spec_no_premature_candidate ready (_ # cs) = spec_no_premature_candidate ready cs"

subsection \<open>Scenarios\<close>

text \<open>Join a room: the click, then \<open>getUserMedia\<close> fulfils with camera and microphone.\<close>

definition joined_events :: "event list" where
  "joined_events = [ClickJoin, Settle 0 (FulfilledStream camera_stream)]"

text \<open>Join an empty room and wait for a peer.\<close>

definition waiting_events :: "event list" where
  "waiting_events = [ClickJoin, Settle 0 (FulfilledStream camera_stream), RoomUsers []]"

text \<open>Join a room that has a member, and the transport produces the offer.\<close>

definition offer_sent_events :: "event list" where
  "offer_sent_events =
     [ClickJoin, Settle 0 (FulfilledStream camera_stream), RoomUsers [''peerA''],
      Settle 0 (FulfilledSdp ''offer1'')]"

text \<open>
  Join, offer to the peer already in the room, then leave while the offer is outstanding.
\<close>

definition stale_answer_events :: "event list" where
  "stale_answer_events =
     [ClickJoin, Settle 0 (FulfilledStream camera_stream), RoomUsers [''peerA''],
      Settle 0 (FulfilledSdp ''offer1''), ClickLeave]"

text \<open>
  Join, then the membership notification arrives twice before the transport has
  produced the first offer; both \<open>createOffer\<close> promises then fulfil.
\<close>

definition double_room_users_events :: "event list" where
  "double_room_users_events =
     [ClickJoin, Settle 0 (FulfilledStream camera_stream),
      RoomUsers [''peerA''], RoomUsers [''peerA''],
      Settle 0 (FulfilledSdp ''offer1''), Settle 0 (FulfilledSdp ''offer2'')]"

text \<open>
  A complete negotiation as offerer (offer applied and sent, answer received and
  applied), followed by a second answer.
\<close>

definition second_answer_events :: "event list" where
  "second_answer_events =
     [ClickJoin, Settle 0 (FulfilledStream camera_stream), RoomUsers [''peerA''],
      Settle 0 (FulfilledSdp ''offer1''), Settle 0 Fulfilled,
      GetAnswer ''answer1'', Settle 0 Fulfilled, GetAnswer ''answer2'']"

subsection \<open>Observations\<close>

text \<open>The tracks of the local stream, none when there is no stream.\<close>

definition local_tracks :: "state \<Rightarrow> track list" where
  "local_tracks s = (case localStream s of None \<Rightarrow> [] | Some m \<Rightarrow> tracks m)"

subsection \<open>How a handler extends the list of transport calls\<close>

text \<open>
  \<open>appends_calls s s'\<close>: from \<open>s\<close> to \<open>s'\<close> the list of transport calls has only grown at
  its end, every new call was made on the object the variable \<open>peerConnection\<close> held in
  \<open>s\<close>, and the variable has not moved back to an earlier object.
\<close>

definition appends_calls :: "state \<Rightarrow> state \<Rightarrow> bool" where
  "appends_calls s s' =
     (peerConnection s \<le> peerConnection s' \<and>
      take (length (transport_calls s)) (transport_calls s') = transport_calls s \<and>
      list_all (\<lambda>c. fst c = peerConnection s)
        (drop (length (transport_calls s)) (transport_calls s')))"

section \<open>Properties\<close>

lemmas call_defs = console_log_def console_error_def socket_emit_def pc_invoke_def await_def
  updateConnectionStatus_def showError_def clearError_def

lemmas handler_defs = createOffer_def createOffer_then_def
  createOffer_catch_def createAnswer_def createAnswer_then1_def createAnswer_then2_def
  createAnswer_catch_def on_connect_def on_disconnect_def on_connect_error_def on_room_users_def
  on_getOffer_def on_getAnswer_def on_getCandidate_def on_getCandidate_then_def
  on_getCandidate_catch_def on_user_exit_def init_def init_resume_def init_catch_def
  onicecandidate_def oniceconnectionstatechange_def ontrack_def leaveRoom_def toggleVideo_def
  toggleAudio_def

lemma run_append: "run (es @ fs) s = run fs (run es s)"
  by (induction es arbitrary: s) simp_all

subsection \<open>Transport calls only ever go to the current object\<close>

lemma addTrack_loop:
  "foldl (\<lambda>s t. pc_invoke (AddTrack (track_id t) m) s) s ts
     = s\<lparr>transport_calls :=
           transport_calls s @ map (\<lambda>t. (peerConnection s, AddTrack (track_id t) m)) ts\<rparr>"
  by (induction ts arbitrary: s) (simp_all add: pc_invoke_def)

lemma init_resume_calls:
  "transport_calls (init_resume m s)
     = transport_calls s
       @ map (\<lambda>t. (peerConnection s, AddTrack (track_id t) (stream_id m))) (tracks m)"
  "peerConnection (init_resume m s) = peerConnection s"
  by (simp_all add: init_resume_def addTrack_loop socket_emit_def updateConnectionStatus_def
        Let_def)

lemma appends_calls_refl: "appends_calls s s"
  by (simp add: appends_calls_def)

lemma init_resume_appends: "appends_calls s (init_resume m s)"
  by (simp add: appends_calls_def init_resume_calls list_all_iff)

lemma handlers_append:
  "appends_calls s (init_catch e s)"
  "appends_calls s (createOffer_then d s)"
  "appends_calls s (createOffer_catch e s)"
  "appends_calls s (createAnswer_then1 s)"
  "appends_calls s (createAnswer_then2 d s)"
  "appends_calls s (createAnswer_catch e s)"
  "appends_calls s (on_getCandidate_then s)"
  "appends_calls s (on_getCandidate_catch e s)"
  "appends_calls s (on_connect s)"
  "appends_calls s (on_disconnect s)"
  "appends_calls s (on_connect_error s)"
  "appends_calls s (on_room_users data s)"
  "appends_calls s (on_getOffer d s)"
  "appends_calls s (on_getAnswer d s)"
  "appends_calls s (on_getCandidate c s)"
  "appends_calls s (on_user_exit i s)"
  "appends_calls s (init s)"
  "appends_calls s (leaveRoom s)"
  "appends_calls s (toggleVideo s)"
  "appends_calls s (toggleAudio s)"
  "appends_calls s (onicecandidate oc s)"
  "appends_calls s (oniceconnectionstatechange s)"
  "appends_calls s (ontrack ms s)"
  by (simp_all add: appends_calls_def call_defs createOffer_then_def createOffer_def
        createOffer_catch_def createAnswer_def createAnswer_then1_def createAnswer_then2_def
        createAnswer_catch_def on_connect_def on_disconnect_def on_connect_error_def
        on_room_users_def on_getOffer_def on_getAnswer_def on_getCandidate_def
        on_getCandidate_then_def on_getCandidate_catch_def on_user_exit_def init_def
        init_catch_def onicecandidate_def oniceconnectionstatechange_def ontrack_def
        leaveRoom_def toggleVideo_def toggleAudio_def Let_def split: option.splits)

lemma continuation_appends:
  "continuation a out = Some k \<Longrightarrow> appends_calls s (k s)"
  by (cases a; cases out)
     (auto simp: init_resume_appends appends_calls_refl handlers_append)

lemma appends_calls_pending:
  "appends_calls (s\<lparr>pending := q\<rparr>) s' \<Longrightarrow> appends_calls s s'"
  by (simp add: appends_calls_def)

lemma settle_appends: "appends_calls s (settle i out s)"
  by (auto simp: settle_def appends_calls_refl split: option.splits
           intro: appends_calls_pending continuation_appends)

lemma step_appends: "appends_calls s (step e s)"
proof (cases e)
  case (Settle i out)
  then show ?thesis by (simp add: settle_appends)
next
  case (IceConnectionStateChange p st)
  have "appends_calls s
      (oniceconnectionstatechange (s\<lparr>iceConnectionState := (iceConnectionState s)(p := st)\<rparr>))"
    using handlers_append(22) [of "s\<lparr>iceConnectionState := (iceConnectionState s)(p := st)\<rparr>"]
    by (simp add: appends_calls_def)
  moreover have "appends_calls s (s\<lparr>iceConnectionState := (iceConnectionState s)(p := st)\<rparr>)"
    by (simp add: appends_calls_def)
  ultimately show ?thesis using IceConnectionStateChange by (simp add: Let_def)
qed (simp_all add: handlers_append appends_calls_refl)

lemma appends_callsD:
  assumes "appends_calls s s'"
  obtains xs where "transport_calls s' = transport_calls s @ xs"
    and "list_all (\<lambda>c. fst c = peerConnection s) xs"
    and "peerConnection s \<le> peerConnection s'"
proof -
  let ?n = "length (transport_calls s)"
  have "transport_calls s' = take ?n (transport_calls s') @ drop ?n (transport_calls s')"
    by simp
  with assms have "transport_calls s' = transport_calls s @ drop ?n (transport_calls s')"
    by (simp add: appends_calls_def)
  with assms that show thesis
    by (simp add: appends_calls_def)
qed

text \<open>
  Over any sequence of events the calls made so far stay, and every later call goes to
  the object current at the start or to one constructed after it.
\<close>

lemma run_calls:
  "\<exists>xs. transport_calls (run es s) = transport_calls s @ xs \<and>
        list_all (\<lambda>c. peerConnection s \<le> fst c) xs \<and>
        peerConnection s \<le> peerConnection (run es s)"
proof (induction es arbitrary: s)
  case Nil
  show ?case by simp
next
  case (Cons e es)
  obtain xs where xs: "transport_calls (step e s) = transport_calls s @ xs"
      "list_all (\<lambda>c. fst c = peerConnection s) xs"
      "peerConnection s \<le> peerConnection (step e s)"
    using step_appends [of s e] by (rule appends_callsD)
  obtain ys where ys: "transport_calls (run es (step e s)) = transport_calls (step e s) @ ys"
      "list_all (\<lambda>c. peerConnection (step e s) \<le> fst c) ys"
      "peerConnection (step e s) \<le> peerConnection (run es (step e s))"
    using Cons.IH [of "step e s"] by blast
  have "list_all (\<lambda>c. peerConnection s \<le> fst c) (xs @ ys)"
    using xs(2,3) ys(2) by (auto simp: list_all_iff)
  moreover have "transport_calls (run (e # es) s) = transport_calls s @ (xs @ ys)"
    using xs(1) ys(1) by simp
  moreover have "peerConnection s \<le> peerConnection (run (e # es) s)"
    using xs(3) ys(3) by simp
  ultimately show ?case by blast
qed

lemma leaveRoom_fields:
  "peerConnection (leaveRoom s) = Suc (peerConnection s)"
  "transport_calls (leaveRoom s) = transport_calls s @ [(peerConnection s, Close)]"
  "localStream (leaveRoom s) = None"
  by (simp_all add: leaveRoom_def call_defs Let_def split: option.splits)

subsection \<open>Remote candidates\<close>

lemma on_getCandidate_fields:
  "transport_calls (on_getCandidate c s)
     = transport_calls s @ [(peerConnection s, AddIceCandidate c)]"
  "peerConnection (on_getCandidate c s) = peerConnection s"
  "pending (on_getCandidate c s) = pending s @ [AwaitAddIceCandidate (peerConnection s)]"
  by (simp_all add: on_getCandidate_def call_defs Let_def)

text \<open>
  C1, as the specification states it, fails. The user has joined an empty room and waits.
  A candidate that arrives before any offer is handed to \<open>addIceCandidate\<close> at once:
  the call precedes every \<open>setRemoteDescription\<close>. When the transport rejects it and
  the offer arrives afterwards, the remote description is set and the answer is created,
  and the candidate is not handed over again: there is no buffer to drain. Likewise a
  candidate that arrives right after the offer is handed over while the promise of
  \<open>setRemoteDescription\<close> is still pending.
\<close>

theorem C1_counterexample:
  "transport_calls
     (run (waiting_events
           @ [GetCandidate ''cand1'',
              Settle 0 (Rejected \<lparr>name = ''InvalidStateError'',
                                  message = ''no remote description''\<rparr>),
              GetOffer ''offer1'',
              Settle 0 Fulfilled]) page_load)
   = [(0, AddTrack 1 1), (0, AddTrack 2 1), (0, AddIceCandidate ''cand1''),
      (0, SetRemoteDescription ''offer1''), (0, CreateAnswer)]
   \<and> \<not> spec_no_premature_candidate []
         (transport_calls (run (waiting_events @ [GetCandidate ''cand1'']) page_load))
   \<and> transport_calls
       (run (waiting_events @ [GetOffer ''offer1'', GetCandidate ''cand1'']) page_load)
     = [(0, AddTrack 1 1), (0, AddTrack 2 1), (0, SetRemoteDescription ''offer1''),
        (0, AddIceCandidate ''cand1'')]
   \<and> pending
       (run (waiting_events @ [GetOffer ''offer1'', GetCandidate ''cand1'']) page_load)
     = [AwaitSetRemoteDescriptionOfOffer 0, AwaitAddIceCandidate 0]"
  by (simp add: waiting_events_def call_defs handler_defs settle_def page_load_def
        camera_stream_def Let_def)

text \<open>
  C1 as amended: every remote candidate is handed to the current transport the moment its
  \<open>getCandidate\<close> event is handled, whatever the state (so with or without a remote
  description), and a run of such events reaches the transport in arrival order; each
  call leaves one promise pending. A candidate the transport rejects is written to the
  console and nothing else happens: it is neither kept nor retried.
\<close>

theorem C1_candidates_applied_on_arrival:
  "transport_calls (run (map GetCandidate cs) s)
     = transport_calls s @ map (\<lambda>c. (peerConnection s, AddIceCandidate c)) cs
   \<and> pending (run (map GetCandidate cs) s)
     = pending s @ replicate (length cs) (AwaitAddIceCandidate (peerConnection s))
   \<and> on_getCandidate_catch e s
     = s\<lparr>console := console s @ [Error ''Error adding ICE candidate:'']\<rparr>"
proof -
  have "transport_calls (run (map GetCandidate cs) s)
          = transport_calls s @ map (\<lambda>c. (peerConnection s, AddIceCandidate c)) cs
        \<and> pending (run (map GetCandidate cs) s)
          = pending s @ replicate (length cs) (AwaitAddIceCandidate (peerConnection s))
        \<and> peerConnection (run (map GetCandidate cs) s) = peerConnection s"
  proof (induction cs rule: rev_induct)
    case Nil
    show ?case by simp
  next
    case (snoc c cs)
    then show ?case
      by (simp add: run_append on_getCandidate_fields replicate_append_same)
  qed
  then show ?thesis
    by (simp add: on_getCandidate_catch_def console_error_def)
qed

subsection \<open>Leaving and what arrives afterwards\<close>

text \<open>
  C2, as the specification states it, fails. The user joins, offers to the peer already in
  the room and leaves while the offer is outstanding; \<open>leaveRoom\<close> has constructed
  transport 1. The peer's answer to that offer then arrives: it is applied to transport 1.
\<close>

theorem C2_counterexample:
  "socket_emits (run stale_answer_events page_load)
     = [Join ''1234'' ''user_k3x9q'', Offer ''offer1'']
   \<and> peerConnection (run stale_answer_events page_load) = 1
   \<and> transport_calls (run (stale_answer_events @ [GetAnswer ''answer1'']) page_load)
       = transport_calls (run stale_answer_events page_load)
         @ [(1, SetRemoteDescription ''answer1'')]"
  by (simp add: stale_answer_events_def call_defs handler_defs settle_def page_load_def
        camera_stream_def Let_def)

text \<open>
  C2 as amended: after \<open>leaveRoom\<close> no call is ever made on the transport it closed,
  whatever events follow. There is no generation check beyond that: an answer, a
  candidate or a resolved \<open>createOffer\<close> from before the leave is applied to the freshly
  constructed transport like any other, and the stale offer is still emitted.
\<close>

theorem C2_leave_abandons_old_transport:
  "list_all (\<lambda>c. fst c \<noteq> peerConnection s)
     (drop (length (transport_calls (leaveRoom s))) (transport_calls (run es (leaveRoom s))))
   \<and> transport_calls (on_getAnswer d (leaveRoom s))
       = transport_calls (leaveRoom s) @ [(Suc (peerConnection s), SetRemoteDescription d)]
   \<and> transport_calls (on_getCandidate c (leaveRoom s))
       = transport_calls (leaveRoom s) @ [(Suc (peerConnection s), AddIceCandidate c)]
   \<and> transport_calls (createOffer_then d (leaveRoom s))
       = transport_calls (leaveRoom s) @ [(Suc (peerConnection s), SetLocalDescription d)]
   \<and> socket_emits (createOffer_then d (leaveRoom s)) = socket_emits (leaveRoom s) @ [Offer d]"
proof -
  obtain xs where xs:
      "transport_calls (run es (leaveRoom s)) = transport_calls (leaveRoom s) @ xs"
      "list_all (\<lambda>c. peerConnection (leaveRoom s) \<le> fst c) xs"
    using run_calls [of es "leaveRoom s"] by blast
  have "list_all (\<lambda>c. fst c \<noteq> peerConnection s) xs"
    using xs(2) by (auto simp: list_all_iff leaveRoom_fields)
  then have "list_all (\<lambda>c. fst c \<noteq> peerConnection s)
     (drop (length (transport_calls (leaveRoom s))) (transport_calls (run es (leaveRoom s))))"
    by (simp add: xs(1))
  then show ?thesis
    by (simp add: on_getAnswer_def on_getCandidate_def createOffer_then_def call_defs
          leaveRoom_fields Let_def)
qed

subsection \<open>Offers\<close>

lemma on_room_users_fields:
  "transport_calls (on_room_users data s)
     = (if data = [] then transport_calls s
        else transport_calls s @ [(peerConnection s, CreateOffer)])"
  "pending (on_room_users data s)
     = (if data = [] then pending s else pending s @ [AwaitCreateOffer (peerConnection s)])"
  "peerConnection (on_room_users data s) = peerConnection s"
  "socket_emits (on_room_users data s) = socket_emits s"
  by (simp_all add: on_room_users_def createOffer_def call_defs Let_def)

lemma run_replicate_Suc: "run (replicate (Suc n) e) s = step e (run (replicate n e) s)"
proof -
  have "replicate (Suc n) e = replicate n e @ [e]"
    by (simp add: replicate_append_same)
  then show ?thesis
    by (simp only: run_append run.simps)
qed

text \<open>
  C3, as the specification states it, fails. After joining, \<open>room_users\<close> arrives twice
  with the same member while the first offer is still being created: two \<open>createOffer\<close>
  calls are outstanding on the one transport, and when they fulfil two offers are applied
  and two offers are sent through the socket.
\<close>

theorem C3_counterexample:
  "pending (run (take 4 double_room_users_events) page_load)
     = [AwaitCreateOffer 0, AwaitCreateOffer 0]
   \<and> transport_calls (run double_room_users_events page_load)
     = [(0, AddTrack 1 1), (0, AddTrack 2 1), (0, CreateOffer), (0, CreateOffer),
        (0, SetLocalDescription ''offer1''), (0, SetLocalDescription ''offer2'')]
   \<and> socket_emits (run double_room_users_events page_load)
     = [Join ''1234'' ''user_k3x9q'', Offer ''offer1'', Offer ''offer2'']"
  by (simp add: double_room_users_events_def call_defs handler_defs settle_def page_load_def
        camera_stream_def Let_def)

text \<open>
  C3 as amended: every \<open>room_users\<close> event with a non-empty member list calls
  \<open>createOffer\<close> on the current transport, in any state and however many offers are
  already outstanding (\<open>n\<close> such events make \<open>n\<close> calls and leave \<open>n\<close> promises
  pending); an event with an empty list makes no call; and every \<open>createOffer\<close>
  promise that fulfils sends its offer through the socket.
\<close>

theorem C3_every_nonempty_room_users_offers:
  "transport_calls (run (replicate n (RoomUsers (m # ms))) s)
     = transport_calls s @ replicate n (peerConnection s, CreateOffer)
   \<and> pending (run (replicate n (RoomUsers (m # ms))) s)
     = pending s @ replicate n (AwaitCreateOffer (peerConnection s))
   \<and> transport_calls (on_room_users [] s) = transport_calls s
   \<and> pending (on_room_users [] s) = pending s
   \<and> socket_emits (createOffer_then d s) = socket_emits s @ [Offer d]"
proof -
  let ?es = "\<lambda>n. replicate n (RoomUsers (m # ms))"
  have "transport_calls (run (?es n) s)
          = transport_calls s @ replicate n (peerConnection s, CreateOffer)
        \<and> pending (run (?es n) s)
          = pending s @ replicate n (AwaitCreateOffer (peerConnection s))
        \<and> peerConnection (run (?es n) s) = peerConnection s"
  proof (induction n)
    case 0
    show ?case by simp
  next
    case (Suc n)
    have "run (?es (Suc n)) s = on_room_users (m # ms) (run (?es n) s)"
      by (simp only: run_replicate_Suc step.simps)
    with Suc show ?case
      by (simp only: on_room_users_fields replicate_append_same append_assoc
            replicate_Suc [symmetric] list.simps if_False simp_thms)
  qed
  then show ?thesis
    by (simp add: on_room_users_fields createOffer_then_def call_defs Let_def)
qed

subsection \<open>Forwarding a description\<close>

text \<open>
  C4, as the specification states it, fails. Once \<open>createOffer\<close> has fulfilled, the offer
  has been sent through the socket while the promise of \<open>setLocalDescription\<close> is still
  pending; and when that promise then rejects, the offer stays sent.
\<close>

theorem C4_counterexample:
  "socket_emits (run offer_sent_events page_load)
     = [Join ''1234'' ''user_k3x9q'', Offer ''offer1'']
   \<and> pending (run offer_sent_events page_load) = [AwaitSetLocalDescription 0]
   \<and> socket_emits
       (run (offer_sent_events
             @ [Settle 0 (Rejected \<lparr>name = ''InvalidStateError'', message = ''rejected''\<rparr>)])
          page_load)
     = [Join ''1234'' ''user_k3x9q'', Offer ''offer1'']"
  by (simp add: offer_sent_events_def call_defs handler_defs settle_def page_load_def
        camera_stream_def Let_def)

text \<open>
  C4 as amended: for every offer or answer the engine originates, the continuation that
  receives the description calls \<open>setLocalDescription\<close> and sends the description
  through the socket in the same run, leaving the promise of \<open>setLocalDescription\<close>
  pending; the send does not wait for that promise, and when it settles, fulfilled or
  rejected, nothing further happens.
\<close>

theorem C4_description_emitted_without_awaiting:
  "createOffer_then d s
     = s\<lparr>transport_calls := transport_calls s @ [(peerConnection s, SetLocalDescription d)],
         socket_emits := socket_emits s @ [Offer d],
         pending := pending s @ [AwaitSetLocalDescription (peerConnection s)]\<rparr>
   \<and> createAnswer_then2 d s
     = s\<lparr>console := console s @ [Log ''Answer created''],
         transport_calls := transport_calls s @ [(peerConnection s, SetLocalDescription d)],
         socket_emits := socket_emits s @ [Answer d],
         pending := pending s @ [AwaitSetLocalDescription (peerConnection s)]\<rparr>
   \<and> settle (length (pending s)) Fulfilled (createOffer_then d s)
     = (createOffer_then d s)\<lparr>pending := pending s\<rparr>
   \<and> settle (length (pending s)) (Rejected e) (createOffer_then d s)
     = (createOffer_then d s)\<lparr>pending := pending s\<rparr>
   \<and> settle (length (pending s)) Fulfilled (createAnswer_then2 d s)
     = (createAnswer_then2 d s)\<lparr>pending := pending s\<rparr>
   \<and> settle (length (pending s)) (Rejected e) (createAnswer_then2 d s)
     = (createAnswer_then2 d s)\<lparr>pending := pending s\<rparr>"
  by (simp add: createOffer_then_def createAnswer_then2_def call_defs settle_def Let_def
        nth_append)

subsection \<open>The remote peer leaves\<close>


subsection \<open>Connection status\<close>

text \<open>
  C6, as the specification states it, fails. After a join the status is
  \<open>connected\<close>, ``In Room''. A change of the transport's connectivity state to
  \<open>checking\<close> leaves the status as it was: nothing is shown for that change. A change to
  \<open>failed\<close> sets the same status class as a change to \<open>disconnected\<close> does.
\<close>

theorem C6_counterexample:
  "connectionStatus_className (run joined_events page_load) = ''connection-status connected''
   \<and> statusText_textContent (run joined_events page_load) = ''In Room''
   \<and> connectionStatus_className
       (run (joined_events @ [IceConnectionStateChange 0 ''checking'']) page_load)
     = ''connection-status connected''
   \<and> statusText_textContent
       (run (joined_events @ [IceConnectionStateChange 0 ''checking'']) page_load)
     = ''In Room''
   \<and> connectionStatus_className
       (run (joined_events @ [IceConnectionStateChange 0 ''failed'']) page_load)
     = ''connection-status disconnected''
   \<and> connectionStatus_className
       (run (joined_events @ [IceConnectionStateChange 0 ''disconnected'']) page_load)
     = ''connection-status disconnected''"
  by (simp add: joined_events_def call_defs handler_defs settle_def
        page_load_def camera_stream_def Let_def)

text \<open>
  C6 as amended: on a connectivity-state change of the current transport, once \<open>init\<close>
  has installed the handler, the status shown is: for \<open>connected\<close> the class
  \<open>connected\<close> with ``Peer Connected''; for \<open>disconnected\<close> the class \<open>disconnected\<close>
  with ``Peer Disconnected''; for \<open>failed\<close> the class \<open>disconnected\<close> with
  ``Connection Failed'' and the error ``Peer connection failed. Try rejoining.''; for
  every other state, and on a transport without the handler, status and error stay as
  they were.
\<close>

theorem C6_status_of_connectivity_state:
  "(connectionStatus_className (step (IceConnectionStateChange (peerConnection s) st) s),
    statusText_textContent (step (IceConnectionStateChange (peerConnection s) st) s),
    errorMsg_textContent (step (IceConnectionStateChange (peerConnection s) st) s))
   = (if peerConnection s \<in> handlers_installed s \<and> st = ''connected''
      then (''connection-status connected'', ''Peer Connected'', errorMsg_textContent s)
      else if peerConnection s \<in> handlers_installed s \<and> st = ''disconnected''
      then (''connection-status disconnected'', ''Peer Disconnected'', errorMsg_textContent s)
      else if peerConnection s \<in> handlers_installed s \<and> st = ''failed''
      then (''connection-status disconnected'', ''Connection Failed'',
            ''Peer connection failed. Try rejoining.'')
      else (connectionStatus_className s, statusText_textContent s, errorMsg_textContent s))"
  by (simp add: oniceconnectionstatechange_def call_defs Let_def)

subsection \<open>Answers\<close>

text \<open>
  C7, as the specification states it, fails. After an answer has been applied, a second
  answer for the same session is passed to \<open>setRemoteDescription\<close> of the same
  transport exactly as the first was: the engine has no guard.
\<close>

theorem C7_counterexample:
  "transport_calls (run (butlast second_answer_events) page_load)
     = [(0, AddTrack 1 1), (0, AddTrack 2 1), (0, CreateOffer),
        (0, SetLocalDescription ''offer1''), (0, SetRemoteDescription ''answer1'')]
   \<and> transport_calls (run second_answer_events page_load)
     = [(0, AddTrack 1 1), (0, AddTrack 2 1), (0, CreateOffer),
        (0, SetLocalDescription ''offer1''), (0, SetRemoteDescription ''answer1''),
        (0, SetRemoteDescription ''answer2'')]"
  by (simp add: second_answer_events_def call_defs handler_defs settle_def
        page_load_def camera_stream_def Let_def)

text \<open>
  C7 as amended: every answer that arrives, a second one included, is passed to
  \<open>setRemoteDescription\<close> of the current transport; the engine itself changes nothing
  else but one console line, and no error is surfaced to the user, neither then nor when
  the transport fulfils or rejects the call.
\<close>

theorem C7_answer_always_passed_to_transport:
  "on_getAnswer d s
     = s\<lparr>console := console s @ [Log ''Received answer''],
         transport_calls := transport_calls s @ [(peerConnection s, SetRemoteDescription d)],
         pending := pending s @ [AwaitSetRemoteDescriptionOfAnswer (peerConnection s)]\<rparr>
   \<and> errorMsg_textContent (on_getAnswer d s) = errorMsg_textContent s
   \<and> settle (length (pending s)) Fulfilled (on_getAnswer d s)
       = (on_getAnswer d s)\<lparr>pending := pending s\<rparr>
   \<and> settle (length (pending s)) (Rejected e) (on_getAnswer d s)
       = (on_getAnswer d s)\<lparr>pending := pending s\<rparr>"
  by (simp add: on_getAnswer_def call_defs settle_def Let_def nth_append)

subsection \<open>Joining without media\<close>

text \<open>
  C8: when \<open>getUserMedia\<close> rejects during a join, nothing is sent on the socket (so no
  join message), no call is made on the transport (so no track is added), the local
  stream, the handlers, the buttons and the status stay as they were, and the error
  element shows a message that is not empty. In all, from the state before the click only
  the console and the error text have changed.
\<close>

theorem C8_media_failure_stays_idle:
  "settle (length (pending s)) (Rejected e) (init s)
     = s\<lparr>console := console s @ [Log ''Initializing video chat...'', Error ''Error initializing:''],
         errorMsg_textContent :=
           (if name e = ''NotAllowedError''
            then ''Camera/microphone access denied. Please allow permissions and try again.''
            else if name e = ''NotFoundError''
            then ''No camera or microphone found. Please connect a device.''
            else ''Error: '' @ message e)\<rparr>
   \<and> socket_emits (settle (length (pending s)) (Rejected e) (init s)) = socket_emits s
   \<and> transport_calls (settle (length (pending s)) (Rejected e) (init s)) = transport_calls s
   \<and> pending (settle (length (pending s)) (Rejected e) (init s)) = pending s
   \<and> localStream (settle (length (pending s)) (Rejected e) (init s)) = localStream s
   \<and> handlers_installed (settle (length (pending s)) (Rejected e) (init s))
       = handlers_installed s
   \<and> joinBtn_disabled (settle (length (pending s)) (Rejected e) (init s)) = joinBtn_disabled s
   \<and> leaveBtn_disabled (settle (length (pending s)) (Rejected e) (init s))
       = leaveBtn_disabled s
   \<and> connectionStatus_className (settle (length (pending s)) (Rejected e) (init s))
       = connectionStatus_className s
   \<and> statusText_textContent (settle (length (pending s)) (Rejected e) (init s))
       = statusText_textContent s
   \<and> errorMsg_textContent (settle (length (pending s)) (Rejected e) (init s)) \<noteq> ''''"
  by (simp add: init_def init_catch_def call_defs settle_def Let_def nth_append)

subsection \<open>Toggles\<close>

lemma zip_same: "filter (\<lambda>(t, t'). t \<noteq> t') (zip ts ts) = []"
  by (induction ts) simp_all

lemma set_enabled_of_first_frame:
  "map (\<lambda>t. (track_id t, kind t)) (set_enabled_of_first k b ts)
     = map (\<lambda>t. (track_id t, kind t)) ts"
  "filter (\<lambda>t. kind t \<noteq> k) (set_enabled_of_first k b ts) = filter (\<lambda>t. kind t \<noteq> k) ts"
  "length (filter (\<lambda>(t, t'). t \<noteq> t') (zip ts (set_enabled_of_first k b ts))) \<le> 1"
  by (induction ts) (simp_all add: zip_same)

lemma toggleVideo_tracks:
  "local_tracks (toggleVideo s)
     = (if list_ex (\<lambda>t. kind t = Video) (local_tracks s)
        then set_enabled_of_first Video (\<not> isVideoEnabled s) (local_tracks s)
        else local_tracks s)"
  by (simp add: toggleVideo_def local_tracks_def Let_def split: option.splits)

lemma toggleAudio_tracks:
  "local_tracks (toggleAudio s)
     = (if list_ex (\<lambda>t. kind t = Audio) (local_tracks s)
        then set_enabled_of_first Audio (\<not> isAudioEnabled s) (local_tracks s)
        else local_tracks s)"
  by (simp add: toggleAudio_def local_tracks_def Let_def split: option.splits)

lemma toggleVideo_state:
  "toggleVideo s
     = s\<lparr>isVideoEnabled := isVideoEnabled (toggleVideo s),
         localStream := localStream (toggleVideo s),
         toggleVideoBtn_muted := toggleVideoBtn_muted (toggleVideo s),
         toggleVideoBtn_iconOn_display := toggleVideoBtn_iconOn_display (toggleVideo s),
         toggleVideoBtn_iconOff_display := toggleVideoBtn_iconOff_display (toggleVideo s)\<rparr>"
  by (simp add: toggleVideo_def Let_def split: option.splits)

lemma toggleAudio_state:
  "toggleAudio s
     = s\<lparr>isAudioEnabled := isAudioEnabled (toggleAudio s),
         localStream := localStream (toggleAudio s),
         toggleAudioBtn_muted := toggleAudioBtn_muted (toggleAudio s),
         toggleAudioBtn_iconOn_display := toggleAudioBtn_iconOn_display (toggleAudio s),
         toggleAudioBtn_iconOff_display := toggleAudioBtn_iconOff_display (toggleAudio s)\<rparr>"
  by (simp add: toggleAudio_def Let_def split: option.splits)

lemma toggle_quiet:
  "socket_emits (toggleVideo s) = socket_emits s"
  "transport_calls (toggleVideo s) = transport_calls s"
  "pending (toggleVideo s) = pending s"
  "socket_emits (toggleAudio s) = socket_emits s"
  "transport_calls (toggleAudio s) = transport_calls s"
  "pending (toggleAudio s) = pending s"
  by (simp_all add: toggleVideo_def toggleAudio_def Let_def split: option.splits)

lemma toggle_stream_id:
  "map_option stream_id (localStream (toggleVideo s)) = map_option stream_id (localStream s)"
  "map_option stream_id (localStream (toggleAudio s)) = map_option stream_id (localStream s)"
  by (simp_all add: toggleVideo_def toggleAudio_def Let_def split: option.splits)

text \<open>
  C9: a toggle, of video or of audio, in any state, sends nothing on the socket, makes
  no call on the transport and starts no asynchronous operation. Of the whole state it
  changes at most its own \<open>is...Enabled\<close> flag, its own button's \<open>muted\<close> class and
  icons, and the local stream; the stream stays the same stream with the same tracks in
  the same order, every track of the other kind is as it was, and at most one track
  differs from before (in its \<open>enabled\<close> flag, identity and kind being unchanged).
\<close>

theorem C9_toggle_is_local:
  "socket_emits (toggleVideo s) = socket_emits s
   \<and> transport_calls (toggleVideo s) = transport_calls s
   \<and> pending (toggleVideo s) = pending s
   \<and> toggleVideo s
       = s\<lparr>isVideoEnabled := isVideoEnabled (toggleVideo s),
           localStream := localStream (toggleVideo s),
           toggleVideoBtn_muted := toggleVideoBtn_muted (toggleVideo s),
           toggleVideoBtn_iconOn_display := toggleVideoBtn_iconOn_display (toggleVideo s),
           toggleVideoBtn_iconOff_display := toggleVideoBtn_iconOff_display (toggleVideo s)\<rparr>
   \<and> map_option stream_id (localStream (toggleVideo s)) = map_option stream_id (localStream s)
   \<and> map (\<lambda>t. (track_id t, kind t)) (local_tracks (toggleVideo s))
       = map (\<lambda>t. (track_id t, kind t)) (local_tracks s)
   \<and> filter (\<lambda>t. kind t \<noteq> Video) (local_tracks (toggleVideo s))
       = filter (\<lambda>t. kind t \<noteq> Video) (local_tracks s)
   \<and> length (filter (\<lambda>(t, t'). t \<noteq> t')
               (zip (local_tracks s) (local_tracks (toggleVideo s)))) \<le> 1
   \<and> socket_emits (toggleAudio s) = socket_emits s
   \<and> transport_calls (toggleAudio s) = transport_calls s
   \<and> pending (toggleAudio s) = pending s
   \<and> toggleAudio s
       = s\<lparr>isAudioEnabled := isAudioEnabled (toggleAudio s),
           localStream := localStream (toggleAudio s),
           toggleAudioBtn_muted := toggleAudioBtn_muted (toggleAudio s),
           toggleAudioBtn_iconOn_display := toggleAudioBtn_iconOn_display (toggleAudio s),
           toggleAudioBtn_iconOff_display := toggleAudioBtn_iconOff_display (toggleAudio s)\<rparr>
   \<and> map_option stream_id (localStream (toggleAudio s)) = map_option stream_id (localStream s)
   \<and> map (\<lambda>t. (track_id t, kind t)) (local_tracks (toggleAudio s))
       = map (\<lambda>t. (track_id t, kind t)) (local_tracks s)
   \<and> filter (\<lambda>t. kind t \<noteq> Audio) (local_tracks (toggleAudio s))
       = filter (\<lambda>t. kind t \<noteq> Audio) (local_tracks s)
   \<and> length (filter (\<lambda>(t, t'). t \<noteq> t')
               (zip (local_tracks s) (local_tracks (toggleAudio s)))) \<le> 1"
proof -
  have v: "length (filter (\<lambda>(t, t'). t \<noteq> t')
             (zip (local_tracks s) (local_tracks (toggleVideo s)))) \<le> 1"
    using set_enabled_of_first_frame(3) [of "local_tracks s" Video "\<not> isVideoEnabled s"]
    by (simp add: toggleVideo_tracks zip_same)
  have a: "length (filter (\<lambda>(t, t'). t \<noteq> t')
             (zip (local_tracks s) (local_tracks (toggleAudio s)))) \<le> 1"
    using set_enabled_of_first_frame(3) [of "local_tracks s" Audio "\<not> isAudioEnabled s"]
    by (simp add: toggleAudio_tracks zip_same)
  have vf: "map (\<lambda>t. (track_id t, kind t)) (local_tracks (toggleVideo s))
              = map (\<lambda>t. (track_id t, kind t)) (local_tracks s)"
           "filter (\<lambda>t. kind t \<noteq> Video) (local_tracks (toggleVideo s))
              = filter (\<lambda>t. kind t \<noteq> Video) (local_tracks s)"
    by (simp_all add: toggleVideo_tracks set_enabled_of_first_frame)
  have af: "map (\<lambda>t. (track_id t, kind t)) (local_tracks (toggleAudio s))
              = map (\<lambda>t. (track_id t, kind t)) (local_tracks s)"
           "filter (\<lambda>t. kind t \<noteq> Audio) (local_tracks (toggleAudio s))
              = filter (\<lambda>t. kind t \<noteq> Audio) (local_tracks s)"
    by (simp_all add: toggleAudio_tracks set_enabled_of_first_frame)
  show ?thesis
    using v a vf af toggleVideo_state [of s] toggleAudio_state [of s]
    by (simp only: toggle_quiet toggle_stream_id simp_thms)
qed

text \<open>
  C10: when there is no local stream (\<open>localStream\<close> is null), \<open>toggleVideo\<close> and
  \<open>toggleAudio\<close> return the state exactly as it was: no flag, no class or icon, no
  track and no outbound message changes.
\<close>

theorem C10_toggle_without_stream_changes_nothing:
  "localStream s = None \<Longrightarrow> toggleVideo s = s \<and> toggleAudio s = s"
  by (simp add: toggleVideo_def toggleAudio_def)

text \<open>
  C10 at a concrete state: the freshly loaded page has no local stream, and both toggles
  leave it as it is.
\<close>

theorem C10_toggle_without_stream_witness:
  "localStream page_load = None
   \<and> toggleVideo page_load = page_load \<and> toggleAudio page_load = page_load"
  using C10_toggle_without_stream_changes_nothing [of page_load]
  by (simp add: page_load_def)

end
